theory Spec2Isabelle
  imports Main "HOL-Library.AList"
begin

section \<open>Python strings\<close>

text \<open>
  A Python \<^verbatim>\<open>str\<close> is a sequence of code points. The model writes it as a \<^typ>\<open>string\<close>;
  a \<^typ>\<open>char\<close> stands for the code point with the same number, so the strings of the
  model are the Python strings whose code points are below 256.

  \<open>is_space\<close> is \<^verbatim>\<open>str.isspace\<close> on one character (the characters \<^verbatim>\<open>str.strip\<close> removes and
  \<^verbatim>\<open>\s\<close> matches): tab, line feed, vertical tab, form feed, carriage return, the four
  separators 0x1C..0x1F, space, NEL (0x85) and the no-break space (0xA0).
\<close>

definition is_space :: "char \<Rightarrow> bool" where
  "is_space c = ((of_char c :: nat) \<in> set [9, 10, 11, 12, 13, 28, 29, 30, 31, 32, 133, 160])"

definition lstrip :: "string \<Rightarrow> string" where
  "lstrip s = dropWhile is_space s"

definition rstrip :: "string \<Rightarrow> string" where
  "rstrip s = rev (dropWhile is_space (rev s))"

definition strip :: "string \<Rightarrow> string" where
  "strip s = rstrip (lstrip s)"

definition newline :: char where
  "newline = CHR 0x0A"

definition backslash :: char where
  "backslash = CHR 0x5C"

definition squote :: char where
  "squote = CHR 0x27"

definition dquote :: char where
  "dquote = CHR 0x22"

section \<open>The fragment of \<^verbatim>\<open>re\<close> that the blacklist uses\<close>

text \<open>
  \<^verbatim>\<open>re.search(p, code)\<close> is modelled for the pattern syntax that occurs in \<^verbatim>\<open>BLACKLIST\<close>:
  a pattern is a sequence of items, each the word boundary \<^verbatim>\<open>\b\<close> or an atom with an
  optional \<^verbatim>\<open>*\<close> or \<^verbatim>\<open>+\<close>; an atom is a literal character, an escaped character,
  \<^verbatim>\<open>\s\<close>, the dot (any character but the line feed) or a character class \<^verbatim>\<open>[...]\<close>.
  \<open>is_word\<close> is \<^verbatim>\<open>\w\<close> of a \<^verbatim>\<open>str\<close> pattern: an alphanumeric character or the underscore.
\<close>

definition is_word :: "char \<Rightarrow> bool" where
  "is_word c = (let n = (of_char c :: nat) in
     (48 \<le> n \<and> n \<le> 57) \<or> (65 \<le> n \<and> n \<le> 90) \<or> n = 95 \<or> (97 \<le> n \<and> n \<le> 122) \<or>
     n = 170 \<or> n = 178 \<or> n = 179 \<or> n = 181 \<or> n = 185 \<or> n = 186 \<or>
     (188 \<le> n \<and> n \<le> 190) \<or> (192 \<le> n \<and> n \<le> 214) \<or> (216 \<le> n \<and> n \<le> 246) \<or>
     (248 \<le> n \<and> n \<le> 255))"

datatype atom = Lit char | AnyChar | Space | OneOf "char list"

datatype item = Boundary | Once atom | Star atom | Plus atom

fun atom_ok :: "atom \<Rightarrow> char \<Rightarrow> bool" where
  "atom_ok (Lit a) c = (c = a)"
| "atom_ok AnyChar c = (c \<noteq> newline)"
| "atom_ok Space c = is_space c"
| "atom_ok (OneOf cs) c = (c \<in> set cs)"

text \<open>The members of a character class, up to and without the closing bracket.\<close>

fun class_chars :: "string \<Rightarrow> char list \<times> string" where
  "class_chars [] = ([], [])"
| "class_chars (c # cs) =
     (if c = CHR '']'' then ([], cs)
      else if c = backslash then
        (case cs of [] \<Rightarrow> ([], [])
         | d # ds \<Rightarrow> (let (xs, rest) = class_chars ds in (d # xs, rest)))
      else (let (xs, rest) = class_chars cs in (c # xs, rest)))"

lemma class_chars_length: "length (snd (class_chars s)) \<le> length s"
proof (induction s rule: class_chars.induct)
  case 1
  show ?case by simp
next
  case (2 c cs)
  show ?case
  proof (cases "c = CHR '']''")
    case True
    then show ?thesis by simp
  next
    case False
    show ?thesis
    proof (cases "c = backslash")
      case bs: True
      show ?thesis
      proof (cases cs)
        case Nil
        with False bs show ?thesis by simp
      next
        case (Cons d ds)
        with 2(1) [OF False bs Cons] False bs show ?thesis
          by (simp add: case_prod_unfold Let_def)
      qed
    next
      case nb: False
      with 2(2) [OF False nb] False show ?thesis
        by (simp add: case_prod_unfold Let_def)
    qed
  qed
qed

fun quantified :: "atom \<Rightarrow> string \<Rightarrow> item \<times> string" where
  "quantified a [] = (Once a, [])"
| "quantified a (q # rest) =
     (if q = CHR ''*'' then (Star a, rest)
      else if q = CHR ''+'' then (Plus a, rest)
      else (Once a, q # rest))"

lemma quantified_length: "length (snd (quantified a s)) \<le> length s"
  by (cases s) auto

function re_compile :: "string \<Rightarrow> item list" where
  "re_compile [] = []"
| "re_compile (c # cs) =
     (if c = backslash then
        (case cs of [] \<Rightarrow> []
         | d # ds \<Rightarrow>
             if d = CHR ''b'' then Boundary # re_compile ds
             else (let (i, rest) = quantified (if d = CHR ''s'' then Space else Lit d) ds
                   in i # re_compile rest))
      else if c = CHR ''['' then
        (let (xs, after) = class_chars cs; (i, rest) = quantified (OneOf xs) after
         in i # re_compile rest)
      else (let (i, rest) = quantified (if c = CHR ''.'' then AnyChar else Lit c) cs
            in i # re_compile rest))"
  by pat_completeness auto
termination
proof (relation "measure length", goal_cases)
  case 1
  show ?case by simp
next
  case (2 c cs d ds)
  then show ?case by simp
next
  case (3 c cs d ds x i rest)
  then have "rest = snd (quantified (if d = CHR ''s'' then Space else Lit d) ds)"
    by (metis snd_conv)
  then show ?case
    using 3 quantified_length [of "if d = CHR ''s'' then Space else Lit d" ds] by simp
next
  case (4 c cs x xs after y i rest)
  then have "after = snd (class_chars cs)" and "rest = snd (quantified (OneOf xs) after)"
    by (metis snd_conv)+
  then show ?case
    using class_chars_length [of cs] quantified_length [of "OneOf xs" after] by simp
next
  case (5 c cs x i rest)
  then have "rest = snd (quantified (if c = CHR ''.'' then AnyChar else Lit c) cs)"
    by (metis snd_conv)
  then show ?case
    using quantified_length [of "if c = CHR ''.'' then AnyChar else Lit c" cs] by simp
qed

text \<open>
  \<open>match_here items prev s\<close>: some prefix of \<open>s\<close> matches the items, \<open>prev\<close> being the
  character before \<open>s\<close> in the searched text (none at its start). \<^verbatim>\<open>\b\<close> holds where
  exactly one of the two neighbours is a word character.
\<close>

definition word_at :: "char option \<Rightarrow> bool" where
  "word_at p = (case p of None \<Rightarrow> False | Some c \<Rightarrow> is_word c)"

definition next_char :: "string \<Rightarrow> char option" where
  "next_char s = (case s of [] \<Rightarrow> None | c # _ \<Rightarrow> Some c)"

function match_here :: "item list \<Rightarrow> char option \<Rightarrow> string \<Rightarrow> bool" where
  "match_here [] prev s = True"
| "match_here (Boundary # r) prev s =
     (word_at prev \<noteq> word_at (next_char s) \<and> match_here r prev s)"
| "match_here (Once a # r) prev [] = False"
| "match_here (Once a # r) prev (c # cs) = (atom_ok a c \<and> match_here r (Some c) cs)"
| "match_here (Star a # r) prev [] = match_here r prev []"
| "match_here (Star a # r) prev (c # cs) =
     (match_here r prev (c # cs) \<or> (atom_ok a c \<and> match_here (Star a # r) (Some c) cs))"
| "match_here (Plus a # r) prev [] = False"
| "match_here (Plus a # r) prev (c # cs) = (atom_ok a c \<and> match_here (Star a # r) (Some c) cs)"
  by pat_completeness auto
termination
  by (relation "measures [\<lambda>(r, p, s). length s, \<lambda>(r, p, s). length r]") auto

fun search :: "item list \<Rightarrow> char option \<Rightarrow> string \<Rightarrow> bool" where
  "search items prev [] = match_here items prev []"
| "search items prev (c # cs) = (match_here items prev (c # cs) \<or> search items (Some c) cs)"

definition re_search :: "string \<Rightarrow> string \<Rightarrow> bool" where
  "re_search p code = search (re_compile p) None code"

section \<open>static_checks.py\<close>

definition BLACKLIST :: "string list" where
  "BLACKLIST =
    [ [backslash] @ ''bos'' @ [backslash] @ ''.system'' @ [backslash] @ ''s*'' @ [backslash] @ ''('',
      [backslash] @ ''bsubprocess'' @ [backslash] @ ''.'',
      [backslash] @ ''beval'' @ [backslash] @ ''s*'' @ [backslash] @ ''('',
      [backslash] @ ''bexec'' @ [backslash] @ ''s*'' @ [backslash] @ ''('',
      [backslash] @ ''bopen'' @ [backslash] @ ''s*'' @ [backslash] @ ''(.+['' @
        [squote, backslash, dquote] @ '']w['' @ [squote, backslash, dquote] @ '']'',
      [backslash] @ ''brequests'' @ [backslash] @ ''.'',
      [backslash] @ ''burllib'' @ [backslash] @ ''.'',
      [backslash] @ ''bsocket'' @ [backslash] @ ''.'' ]"

definition looks_safe_python :: "string \<Rightarrow> bool \<times> string list" where
  "looks_safe_python code =
     (let matches = filter (\<lambda>p. re_search p code) BLACKLIST
      in (length matches = 0, matches))"

section \<open>verifier.py: the normalizer\<close>

definition make_executable_snippet :: "string \<Rightarrow> string" where
  "make_executable_snippet code0 =
     (let code = rstrip code0 @ [newline]
      in if newline \<notin> set (strip code) then ''print('' @ strip code @ '')'' @ [newline]
         else code)"

section \<open>Python values and dictionaries\<close>

text \<open>
  The verifier passes its results around as dictionaries with string keys. A dictionary is
  an association list in insertion order; a missing key is a missing pair.
  \<open>dict_get d k v\<close> is \<^verbatim>\<open>d.get(k, v)\<close>, \<open>dict_update d other\<close> is \<^verbatim>\<open>d.update(other)\<close>
  (and \<^verbatim>\<open>{**d, **other}\<close>), \<open>truthy\<close> is \<^verbatim>\<open>bool(v)\<close>.
\<close>

datatype pyval =
    PNone
  | PBool bool
  | PInt int
  | PStr string
  | PList "pyval list"
  | PDict "(string \<times> pyval) list"

type_synonym dict = "(string \<times> pyval) list"

definition dict_get :: "dict \<Rightarrow> string \<Rightarrow> pyval \<Rightarrow> pyval" where
  "dict_get d k dflt = (case map_of d k of None \<Rightarrow> dflt | Some v \<Rightarrow> v)"

definition dict_update :: "dict \<Rightarrow> dict \<Rightarrow> dict" where
  "dict_update d other = fold (\<lambda>(k, v). AList.update k v) other d"

fun truthy :: "pyval \<Rightarrow> bool" where
  "truthy PNone = False"
| "truthy (PBool b) = b"
| "truthy (PInt i) = (i \<noteq> 0)"
| "truthy (PStr s) = (s \<noteq> [])"
| "truthy (PList xs) = (xs \<noteq> [])"
| "truthy (PDict d) = (d \<noteq> [])"

section \<open>The sandbox runtime and the state of a call\<close>

text \<open>
  \<^verbatim>\<open>run_in_docker\<close> writes the code to a temporary file and starts the container with
  \<^verbatim>\<open>subprocess.run\<close>. Both belong to the host, so the model takes them as one parameter,
  the runtime: given the code, the timeout and the state of the host it answers with what
  happened and the new state of the host. What can happen:
  \<^item> \<open>TempfileError e\<close>: creating or writing the temporary file raised (lines 6 to 8, before
    the \<^verbatim>\<open>try\<close>);
  \<^item> \<open>Completed rc out err\<close>: \<^verbatim>\<open>subprocess.run\<close> returned with this return code and output;
  \<^item> \<open>TimeoutExpired\<close>: it raised \<^verbatim>\<open>subprocess.TimeoutExpired\<close>;
  \<^item> \<open>OtherException e\<close>: it raised another \<^verbatim>\<open>Exception\<close>, \<open>e\<close> being \<^verbatim>\<open>str(e)\<close>.
  An exception is the string \<^verbatim>\<open>str(e)\<close>; the model has no \<^verbatim>\<open>BaseException\<close> outside
  \<^verbatim>\<open>Exception\<close> (a keyboard interrupt, an exit of the interpreter).

  The state of a call is the state of the host together with a trace, which records every
  call of a component with its argument: the screener, the normalizer, the executor.
\<close>

datatype proc =
    TempfileError string
  | Completed int string string
  | TimeoutExpired
  | OtherException string

type_synonym 'w runtime = "string \<Rightarrow> int \<Rightarrow> 'w \<Rightarrow> proc \<times> 'w"

datatype event = Screened string | Normalized string | Executed string int

record 'w state =
  world :: 'w
  trace :: "event list"

definition record_event :: "event \<Rightarrow> 'w state \<Rightarrow> 'w state" where
  "record_event e s = s\<lparr>trace := trace s @ [e]\<rparr>"

section \<open>docker_sandbox.py\<close>

definition run_in_docker :: "'w runtime \<Rightarrow> string \<Rightarrow> int \<Rightarrow> 'w state \<Rightarrow> (string + dict) \<times> 'w state" where
  "run_in_docker rt code timeout s0 =
     (let s = record_event (Executed code timeout) s0;
          (p, w) = rt code timeout (world s);
          s' = s\<lparr>world := w\<rparr>
      in case p of
           TempfileError e \<Rightarrow> (Inl e, s')
         | Completed returncode out err \<Rightarrow>
             (Inr [(''ok'', PBool (returncode = 0)),
                   (''stdout'', PStr (strip out)),
                   (''stderr'', PStr (strip err)),
                   (''return_code'', PInt returncode)], s')
         | TimeoutExpired \<Rightarrow>
             (Inr [(''ok'', PBool False), (''error'', PStr ''timeout''),
                   (''stdout'', PStr []), (''stderr'', PStr [])], s')
         | OtherException e \<Rightarrow>
             (Inr [(''ok'', PBool False), (''error'', PStr e)], s'))"

section \<open>verifier.py: single form and batch form\<close>

definition verify_single :: "'w runtime \<Rightarrow> string \<Rightarrow> int \<Rightarrow> 'w state \<Rightarrow> (string + dict) \<times> 'w state" where
  "verify_single rt code timeout s0 =
     (let s1 = record_event (Screened code) s0;
          (safe, matches) = looks_safe_python code
      in if \<not> safe then
           (Inr [(''verified'', PBool False), (''reason'', PStr ''static_blacklist_match''),
                 (''matches'', PList (map PStr matches))], s1)
         else
           (let s2 = record_event (Normalized code) s1;
                payload = make_executable_snippet code
            in case run_in_docker rt payload timeout s2 of
                 (Inl e, s3) \<Rightarrow> (Inl e, s3)
               | (Inr res, s3) \<Rightarrow>
                   if truthy (dict_get res ''ok'' PNone) then
                     (Inr [(''verified'', PBool True), (''reason'', PStr ''docker_passed''),
                           (''details'', PDict res)], s3)
                   else
                     (Inr [(''verified'', PBool False), (''reason'', PStr ''docker_failed''),
                           (''details'', PDict res)], s3)))"

text \<open>
  The \<^verbatim>\<open>for\<close> loop of \<^verbatim>\<open>verify_python\<close> over \<^verbatim>\<open>enumerate(blocks)\<close>: \<open>idx\<close> is the index of
  the first block of the list, \<open>tried\<close> the trial records so far. Unpacking
  \<^verbatim>\<open>**(res.get("details", {}) or {})\<close> raises a \<^verbatim>\<open>TypeError\<close> when the value is not a
  dictionary.
\<close>

definition new_entry :: "nat \<Rightarrow> dict" where
  "new_entry idx =
     [(''index'', PInt (int idx)), (''skipped'', PBool False), (''verified'', PBool False),
      (''reason'', PNone), (''details'', PNone)]"

definition too_short :: "string \<Rightarrow> bool" where
  "too_short blk = (blk = [] \<or> length (strip blk) < 6)"

fun verify_python_loop ::
  "'w runtime \<Rightarrow> int \<Rightarrow> nat \<Rightarrow> string list \<Rightarrow> pyval list \<Rightarrow> 'w state \<Rightarrow> (string + dict) \<times> 'w state" where
  "verify_python_loop rt timeout idx [] tried s =
     (Inr [(''verified'', PBool False), (''reason'', PStr ''no_block_verified''),
           (''details'', PDict [(''tried_blocks'', PList tried)])], s)"
| "verify_python_loop rt timeout idx (blk # rest) tried s =
     (if too_short blk then
        verify_python_loop rt timeout (Suc idx) rest
          (tried @ [PDict (dict_update (new_entry idx)
             [(''skipped'', PBool True), (''reason'', PStr ''too_short'')])]) s
      else
        (case verify_single rt blk timeout s of
           (Inl e, s') \<Rightarrow>
             verify_python_loop rt timeout (Suc idx) rest
               (tried @ [PDict (dict_update (new_entry idx)
                  [(''verified'', PBool False), (''reason'', PStr ''exception_in_verifier''),
                   (''details'', PDict [(''error'', PStr e)])])]) s'
         | (Inr res, s') \<Rightarrow>
             (let tried' = tried @ [PDict (dict_update (new_entry idx)
                    [(''verified'', PBool (truthy (dict_get res ''verified'' (PBool False)))),
                     (''reason'', dict_get res ''reason'' PNone),
                     (''details'', dict_get res ''details'' PNone)])]
              in if truthy (dict_get res ''verified'' PNone) then
                   (let d = dict_get res ''details'' (PDict []);
                        d' = (if truthy d then d else PDict [])
                    in case d' of
                         PDict m \<Rightarrow>
                           (Inr [(''verified'', PBool True),
                                 (''reason'', dict_get res ''reason'' PNone),
                                 (''details'',
                                    PDict (dict_update [(''tried_blocks'', PList tried')] m))],
                            s')
                       | _ \<Rightarrow> (Inl ''TypeError'', s'))
                 else verify_python_loop rt timeout (Suc idx) rest tried' s')))"

text \<open>
  \<^verbatim>\<open>verify_python\<close> takes a single string or a list of strings
  (\<^verbatim>\<open>isinstance(code, str)\<close> decides).
\<close>

datatype code_arg = Str string | Blocks "string list"

fun verify_python :: "'w runtime \<Rightarrow> code_arg \<Rightarrow> int \<Rightarrow> 'w state \<Rightarrow> (string + dict) \<times> 'w state" where
  "verify_python rt (Str code) timeout s = verify_single rt code timeout s"
| "verify_python rt (Blocks blocks) timeout s = verify_python_loop rt timeout 0 blocks [] s"

section \<open>Reading results\<close>

text \<open>
  \<open>field e k\<close> reads key \<open>k\<close> of a trial record, \<open>tried_blocks r\<close> is
  \<^verbatim>\<open>r["details"]["tried_blocks"]\<close>, the trial history of a batch result. The three
  records that the loop appends: for a skipped candidate, for a fault of the pipeline, and
  for a result of the pipeline. \<open>entries_ok\<close> and \<open>loop_post\<close> collect what the proofs
  below show of the loop.
\<close>

definition field :: "pyval \<Rightarrow> string \<Rightarrow> pyval" where
  "field e k = (case e of PDict d \<Rightarrow> dict_get d k PNone | _ \<Rightarrow> PNone)"

definition tried_blocks :: "dict \<Rightarrow> pyval list" where
  "tried_blocks r = (case field (dict_get r ''details'' PNone) ''tried_blocks'' of PList xs \<Rightarrow> xs | _ \<Rightarrow> [])"

definition entry_verified :: "pyval \<Rightarrow> bool" where
  "entry_verified e = (field e ''verified'' = PBool True)"

definition skip_entry :: "nat \<Rightarrow> pyval" where
  "skip_entry idx = PDict [(''index'', PInt (int idx)), (''skipped'', PBool True),
     (''verified'', PBool False), (''reason'', PStr ''too_short''), (''details'', PNone)]"

definition fault_entry :: "nat \<Rightarrow> string \<Rightarrow> pyval" where
  "fault_entry idx e = PDict [(''index'', PInt (int idx)), (''skipped'', PBool False),
     (''verified'', PBool False), (''reason'', PStr ''exception_in_verifier''),
     (''details'', PDict [(''error'', PStr e)])]"

definition result_entry :: "nat \<Rightarrow> dict \<Rightarrow> pyval" where
  "result_entry idx res = PDict [(''index'', PInt (int idx)), (''skipped'', PBool False),
     (''verified'', PBool (truthy (dict_get res ''verified'' (PBool False)))),
     (''reason'', dict_get res ''reason'' PNone), (''details'', dict_get res ''details'' PNone)]"

definition entries_ok :: "nat \<Rightarrow> string list \<Rightarrow> pyval list \<Rightarrow> bool" where
  "entries_ok idx bs new \<longleftrightarrow>
     length new \<le> length bs \<and>
     map (\<lambda>e. field e ''index'') new = map (\<lambda>i. PInt (int i)) [idx..<idx + length new] \<and>
     map (\<lambda>e. field e ''skipped'') new = map (\<lambda>b. PBool (too_short b)) (take (length new) bs) \<and>
     (\<forall>e\<in>set (butlast new). \<not> entry_verified e)"

definition loop_post ::
  "'w runtime \<Rightarrow> int \<Rightarrow> nat \<Rightarrow> string list \<Rightarrow> pyval list \<Rightarrow> 'w state \<Rightarrow> dict \<Rightarrow> 'w state \<Rightarrow> pyval list \<Rightarrow> bool" where
  "loop_post rt timeout idx bs tried s r s' new \<longleftrightarrow>
     verify_python_loop rt timeout idx bs tried s = (Inr r, s') \<and>
     tried_blocks r = tried @ new \<and> entries_ok idx bs new \<and>
     (if new \<noteq> [] \<and> entry_verified (last new)
      then dict_get r ''verified'' PNone = PBool True \<and>
           dict_get r ''reason'' PNone = PStr ''docker_passed'' \<and>
           (\<forall>ys. verify_python_loop rt timeout idx (take (length new) bs @ ys) tried s = (Inr r, s'))
      else dict_get r ''verified'' PNone = PBool False \<and>
           dict_get r ''reason'' PNone = PStr ''no_block_verified'' \<and>
           length new = length bs)"

section \<open>An example host\<close>

text \<open>
  A host for the examples below: its state counts the calls of the runtime, and the sandbox
  succeeds on one payload, fails to get its temporary file on another, times out on a third,
  cannot start the container on a fourth, and exits with code 1 on everything else.
\<close>

definition example_runtime :: "nat runtime" where
  "example_runtime code timeout w =
     (if code = ''print(1 + 1 + 1)'' @ [newline] then (Completed 0 (''3'' @ [newline]) [], Suc w)
      else if code = ''print(boom())'' @ [newline] then (TempfileError ''disk full'', Suc w)
      else if code = ''print(spin())'' @ [newline] then (TimeoutExpired, Suc w)
      else if code = ''print(nodocker())'' @ [newline] then (OtherException ''docker: not found'', Suc w)
      else (Completed 1 [] (''Traceback'' @ [newline]), Suc w))"

definition example_state :: "nat state" where
  "example_state = \<lparr>world = 0, trace = []\<rparr>"

definition rm_rf :: string where
  "rm_rf = ''import os; os.system('rm -rf /')''"

definition example_blocks :: "string list" where
  "example_blocks = [''x'', ''undefined_name'', ''1 + 1 + 1'', ''2 + 2 + 2'']"


definition two_lines :: string where
  "two_lines = ''a = 1'' @ [newline] @ ''print(a)   ''"

section \<open>The loop, one candidate at a time\<close>

lemma run_in_docker_ok:
  assumes "run_in_docker rt code timeout s = (Inr res, s')" and "truthy (dict_get res ''ok'' PNone)"
  shows "\<exists>out err. res = [(''ok'', PBool True), (''stdout'', PStr out), (''stderr'', PStr err),
           (''return_code'', PInt 0)]"
  using assms
  by (auto simp: run_in_docker_def Let_def dict_get_def split: prod.splits proc.splits)

lemma verify_single_pass:
  assumes "verify_single rt code timeout s = (Inr res, s')"
    and "truthy (dict_get res ''verified'' PNone)"
  shows "\<exists>out err. res = [(''verified'', PBool True), (''reason'', PStr ''docker_passed''),
           (''details'', PDict [(''ok'', PBool True), (''stdout'', PStr out),
              (''stderr'', PStr err), (''return_code'', PInt 0)])]"
proof (cases "fst (looks_safe_python code)")
  case False
  with assms show ?thesis
    by (auto simp: verify_single_def Let_def dict_get_def split: prod.splits)
next
  case True
  then obtain m where m: "looks_safe_python code = (True, m)"
    by (cases "looks_safe_python code") auto
  let ?s2 = "record_event (Normalized code) (record_event (Screened code) s)"
  obtain x s3 where run: "run_in_docker rt (make_executable_snippet code) timeout ?s2 = (x, s3)"
    by (cases "run_in_docker rt (make_executable_snippet code) timeout ?s2") auto
  show ?thesis
  proof (cases x)
    case (Inl e)
    with assms m run show ?thesis
      by (simp add: verify_single_def Let_def)
  next
    case (Inr d)
    show ?thesis
    proof (cases "truthy (dict_get d ''ok'' PNone)")
      case ok: True
      from run_in_docker_ok [OF run [unfolded Inr] ok] obtain out err where
        "d = [(''ok'', PBool True), (''stdout'', PStr out), (''stderr'', PStr err),
           (''return_code'', PInt 0)]" by blast
      with assms m run Inr ok show ?thesis
        by (auto simp: verify_single_def Let_def)
    next
      case False
      with assms m run Inr show ?thesis
        by (auto simp: verify_single_def Let_def dict_get_def)
    qed
  qed
qed

lemma loop_skip:
  "too_short blk \<Longrightarrow>
   verify_python_loop rt timeout idx (blk # rest) tried s =
   verify_python_loop rt timeout (Suc idx) rest (tried @ [skip_entry idx]) s"
  by (simp add: skip_entry_def new_entry_def dict_update_def)

lemma loop_fault:
  "\<not> too_short blk \<Longrightarrow> verify_single rt blk timeout s = (Inl e, s') \<Longrightarrow>
   verify_python_loop rt timeout idx (blk # rest) tried s =
   verify_python_loop rt timeout (Suc idx) rest (tried @ [fault_entry idx e]) s'"
  by (simp add: fault_entry_def new_entry_def dict_update_def)

lemma loop_fail:
  "\<not> too_short blk \<Longrightarrow> verify_single rt blk timeout s = (Inr res, s') \<Longrightarrow>
   \<not> truthy (dict_get res ''verified'' PNone) \<Longrightarrow>
   verify_python_loop rt timeout idx (blk # rest) tried s =
   verify_python_loop rt timeout (Suc idx) rest (tried @ [result_entry idx res]) s'"
  by (simp add: result_entry_def new_entry_def dict_update_def Let_def)

lemma loop_pass:
  assumes "\<not> too_short blk" and "verify_single rt blk timeout s = (Inr res, s')"
    and "truthy (dict_get res ''verified'' PNone)"
  shows "\<exists>m. map_of m ''tried_blocks'' = None \<and>
     (\<forall>rest. verify_python_loop rt timeout idx (blk # rest) tried s =
       (Inr [(''verified'', PBool True), (''reason'', PStr ''docker_passed''),
             (''details'', PDict ((''tried_blocks'', PList (tried @ [result_entry idx res])) # m))],
        s'))"
proof -
  from verify_single_pass [OF assms(2,3)] obtain out err where
    res: "res = [(''verified'', PBool True), (''reason'', PStr ''docker_passed''),
           (''details'', PDict [(''ok'', PBool True), (''stdout'', PStr out),
              (''stderr'', PStr err), (''return_code'', PInt 0)])]" by blast
  show ?thesis
    using assms(1,2) unfolding res
    by (simp add: result_entry_def new_entry_def dict_update_def Let_def dict_get_def)
qed

declare verify_python_loop.simps(2) [simp del]

lemma entries_ok_Nil: "entries_ok idx bs []"
  by (simp add: entries_ok_def)

lemma entries_ok_Cons:
  assumes "entries_ok (Suc idx) rest new" and "field e ''index'' = PInt (int idx)"
    and "field e ''skipped'' = PBool (too_short blk)" and "new \<noteq> [] \<Longrightarrow> \<not> entry_verified e"
  shows "entries_ok idx (blk # rest) (e # new)"
proof -
  have upt: "[idx..<idx + length (e # new)] = idx # [Suc idx..<Suc idx + length new]"
    by (simp add: upt_rec)
  show ?thesis
    using assms unfolding entries_ok_def upt by auto
qed

lemma skip_entry_fields:
  "field (skip_entry idx) ''index'' = PInt (int idx)"
  "field (skip_entry idx) ''skipped'' = PBool True"
  "\<not> entry_verified (skip_entry idx)"
  by (simp_all add: skip_entry_def field_def dict_get_def entry_verified_def)

lemma fault_entry_fields:
  "field (fault_entry idx e) ''index'' = PInt (int idx)"
  "field (fault_entry idx e) ''skipped'' = PBool False"
  "\<not> entry_verified (fault_entry idx e)"
  by (simp_all add: fault_entry_def field_def dict_get_def entry_verified_def)

lemma result_entry_fields:
  "field (result_entry idx res) ''index'' = PInt (int idx)"
  "field (result_entry idx res) ''skipped'' = PBool False"
  "entry_verified (result_entry idx res) = truthy (dict_get res ''verified'' (PBool False))"
  by (simp_all add: result_entry_def field_def dict_get_def entry_verified_def)

lemma truthy_verified_default:
  "truthy (dict_get res ''verified'' (PBool False)) = truthy (dict_get res ''verified'' PNone)"
  by (simp add: dict_get_def split: option.splits)

lemma loop_post_Cons:
  assumes post: "loop_post rt timeout (Suc idx) rest (tried @ [e]) s1 r s' new"
    and step: "\<And>ys. verify_python_loop rt timeout idx (blk # ys) tried s =
                 verify_python_loop rt timeout (Suc idx) ys (tried @ [e]) s1"
    and e: "field e ''index'' = PInt (int idx)" "field e ''skipped'' = PBool (too_short blk)"
       "\<not> entry_verified e"
  shows "loop_post rt timeout idx (blk # rest) tried s r s' (e # new)"
proof -
  from post have ok: "entries_ok (Suc idx) rest new"
    by (simp add: loop_post_def)
  have "entries_ok idx (blk # rest) (e # new)"
    by (rule entries_ok_Cons [OF ok e(1,2)]) (rule e(3))
  moreover have "last (e # new) = (if new = [] then e else last new)"
    by simp
  ultimately show ?thesis
    using post e(3) unfolding loop_post_def by (auto simp: step)
qed

lemma loop_post_ex: "\<exists>r s' new. loop_post rt timeout idx bs tried s r s' new"
proof (induction bs arbitrary: idx tried s)
  case Nil
  have "loop_post rt timeout idx [] tried s
     [(''verified'', PBool False), (''reason'', PStr ''no_block_verified''),
      (''details'', PDict [(''tried_blocks'', PList tried)])] s []"
    by (simp add: loop_post_def entries_ok_Nil tried_blocks_def field_def dict_get_def)
  then show ?case by blast
next
  case (Cons blk rest)
  show ?case
  proof (cases "too_short blk")
    case True
    from Cons.IH obtain r s' new where
      "loop_post rt timeout (Suc idx) rest (tried @ [skip_entry idx]) s r s' new" by blast
    then have "loop_post rt timeout idx (blk # rest) tried s r s' (skip_entry idx # new)"
      by (rule loop_post_Cons) (simp_all add: loop_skip True skip_entry_fields)
    then show ?thesis by blast
  next
    case False
    obtain x s1 where vs: "verify_single rt blk timeout s = (x, s1)"
      by (cases "verify_single rt blk timeout s") auto
    show ?thesis
    proof (cases x)
      case (Inl e)
      from Cons.IH obtain r s' new where
        "loop_post rt timeout (Suc idx) rest (tried @ [fault_entry idx e]) s1 r s' new" by blast
      then have "loop_post rt timeout idx (blk # rest) tried s r s' (fault_entry idx e # new)"
        by (rule loop_post_Cons)
          (simp_all add: loop_fault [OF False vs [unfolded Inl]] False fault_entry_fields)
      then show ?thesis by blast
    next
      case (Inr res)
      note vs' = vs [unfolded Inr]
      show ?thesis
      proof (cases "truthy (dict_get res ''verified'' PNone)")
        case no: False
        from Cons.IH obtain r s' new where
          "loop_post rt timeout (Suc idx) rest (tried @ [result_entry idx res]) s1 r s' new" by blast
        then have "loop_post rt timeout idx (blk # rest) tried s r s' (result_entry idx res # new)"
          by (rule loop_post_Cons)
            (simp_all add: loop_fail [OF False vs' no] False result_entry_fields
               truthy_verified_default no)
        then show ?thesis by blast
      next
        case yes: True
        from loop_pass [OF False vs' yes] obtain m where
          m: "map_of m ''tried_blocks'' = None"
          and run: "\<And>ys. verify_python_loop rt timeout idx (blk # ys) tried s =
            (Inr [(''verified'', PBool True), (''reason'', PStr ''docker_passed''),
                  (''details'', PDict ((''tried_blocks'', PList (tried @ [result_entry idx res])) # m))],
             s1)"
          by blast
        have "entries_ok idx (blk # rest) [result_entry idx res]"
          by (rule entries_ok_Cons)
            (simp_all add: entries_ok_Nil result_entry_fields False)
        moreover have "entry_verified (result_entry idx res)"
          by (simp add: result_entry_fields truthy_verified_default yes)
        ultimately have "loop_post rt timeout idx (blk # rest) tried s
            [(''verified'', PBool True), (''reason'', PStr ''docker_passed''),
             (''details'', PDict ((''tried_blocks'', PList (tried @ [result_entry idx res])) # m))]
            s1 [result_entry idx res]"
          by (simp add: loop_post_def run tried_blocks_def field_def dict_get_def)
        then show ?thesis by blast
      qed
    qed
  qed
qed

lemma filter_last_only:
  assumes "\<forall>e\<in>set (butlast xs). \<not> P e"
  shows "length (filter P xs) \<le> 1"
proof (cases "xs = []")
  case True
  then show ?thesis by simp
next
  case False
  then have "xs = butlast xs @ [last xs]" by simp
  then have "filter P xs = filter P (butlast xs) @ filter P [last xs]"
    by (metis filter_append)
  moreover from assms have "filter P (butlast xs) = []" by (simp add: filter_empty_conv)
  ultimately show ?thesis by simp
qed

lemma only_last:
  assumes "\<forall>e\<in>set (butlast xs). \<not> P e" and "i < length xs" and "P (xs ! i)"
  shows "Suc i = length xs \<and> xs \<noteq> [] \<and> last xs = xs ! i"
proof -
  have "\<not> i < length xs - 1"
  proof
    assume "i < length xs - 1"
    then have "butlast xs ! i = xs ! i" and "i < length (butlast xs)"
      by (simp_all add: nth_butlast)
    then have "xs ! i \<in> set (butlast xs)" by (metis nth_mem)
    with assms show False by blast
  qed
  with assms(2) have i: "i = length xs - 1" by simp
  from assms(2) have ne: "xs \<noteq> []" by auto
  from i ne have "last xs = xs ! i" by (simp add: last_conv_nth)
  with i ne show ?thesis by simp
qed

section \<open>The batch form\<close>

text \<open>
  C1. For every list of candidates, \<^verbatim>\<open>verify_python\<close> returns a result (it does not raise), at
  most one record of its trial history has \<^verbatim>\<open>verified = True\<close>, and a verified record is the
  last one: the history ends with it, and the result and the final state (the host and the
  trace of the calls of the screener, the normalizer and the executor) are the same whatever
  candidates follow the verified one, so none of them is normalized, screened or executed
  and none gets a record.
\<close>

theorem verify_python_stops_at_first_verified:
  "\<exists>r s'. verify_python rt (Blocks blocks) timeout s = (Inr r, s') \<and>
     length (filter entry_verified (tried_blocks r)) \<le> 1 \<and>
     (\<forall>i<length (tried_blocks r). entry_verified (tried_blocks r ! i) \<longrightarrow>
        Suc i = length (tried_blocks r) \<and>
        (\<forall>later. verify_python rt (Blocks (take (Suc i) blocks @ later)) timeout s = (Inr r, s')))"
proof -
  from loop_post_ex [of rt timeout 0 blocks "[]" s] obtain r s' new where
    post: "loop_post rt timeout 0 blocks [] s r s' new" by blast
  then have run: "verify_python rt (Blocks blocks) timeout s = (Inr r, s')"
    and tried: "tried_blocks r = new"
    and but: "\<forall>e\<in>set (butlast new). \<not> entry_verified e"
    by (simp_all add: loop_post_def entries_ok_def)
  have one: "length (filter entry_verified new) \<le> 1"
    using but by (rule filter_last_only)
  have stop: "Suc i = length new \<and>
        (\<forall>later. verify_python rt (Blocks (take (Suc i) blocks @ later)) timeout s = (Inr r, s'))"
    if "i < length new" and "entry_verified (new ! i)" for i
  proof -
    from only_last [OF but that] have l: "Suc i = length new" "new \<noteq> []" "last new = new ! i"
      by simp_all
    with that(2) post show ?thesis
      by (simp add: loop_post_def)
  qed
  have "verify_python rt (Blocks blocks) timeout s = (Inr r, s') \<and>
     length (filter entry_verified (tried_blocks r)) \<le> 1 \<and>
     (\<forall>i<length (tried_blocks r). entry_verified (tried_blocks r ! i) \<longrightarrow>
        Suc i = length (tried_blocks r) \<and>
        (\<forall>later. verify_python rt (Blocks (take (Suc i) blocks @ later)) timeout s = (Inr r, s')))"
    unfolding tried using run one stop by blast
  then show ?thesis by blast
qed

text \<open>
  The example host with four candidates: the first is skipped, the second fails, the third
  verifies; the history has three records and a fourth candidate changes nothing.
\<close>

theorem verify_python_stops_at_first_verified_witness:
  "2 < length (tried_blocks (projr (fst (verify_python example_runtime (Blocks example_blocks) 5 example_state)))) \<and>
   entry_verified (tried_blocks (projr (fst (verify_python example_runtime (Blocks example_blocks) 5 example_state))) ! 2) \<and>
   Suc 2 = length (tried_blocks (projr (fst (verify_python example_runtime (Blocks example_blocks) 5 example_state)))) \<and>
   verify_python example_runtime (Blocks (take (Suc 2) example_blocks @ [rm_rf])) 5 example_state =
   verify_python example_runtime (Blocks example_blocks) 5 example_state"
proof -
  let ?run = "verify_python example_runtime (Blocks example_blocks) 5 example_state"
  from verify_python_stops_at_first_verified [of example_runtime example_blocks 5 example_state]
  obtain r s' where run: "?run = (Inr r, s')"
    and stop: "\<forall>i<length (tried_blocks r). entry_verified (tried_blocks r ! i) \<longrightarrow>
        Suc i = length (tried_blocks r) \<and>
        (\<forall>later. verify_python example_runtime (Blocks (take (Suc i) example_blocks @ later)) 5
           example_state = (Inr r, s'))"
    by blast
  have r: "projr (fst ?run) = r"
    by (simp only: run fst_conv sum.sel)
  have len: "2 < length (tried_blocks (projr (fst ?run)))"
    by code_simp
  have ver: "entry_verified (tried_blocks (projr (fst ?run)) ! 2)"
    by code_simp
  from stop len ver have "Suc 2 = length (tried_blocks r)"
    and "verify_python example_runtime (Blocks (take (Suc 2) example_blocks @ [rm_rf])) 5 example_state = (Inr r, s')"
    unfolding r by blast+
  with len ver run show ?thesis
    unfolding r by metis
qed



text \<open>
  C9. On the empty list \<^verbatim>\<open>verify_python\<close> returns \<^verbatim>\<open>verified = False\<close> with the reason
  \<^verbatim>\<open>no_block_verified\<close> and an empty trial history, and the state is unchanged: the host is
  not touched and no call of the normalizer, the screener or the executor is recorded.
\<close>

theorem empty_list_no_block_verified:
  "verify_python rt (Blocks []) timeout s =
     (Inr [(''verified'', PBool False), (''reason'', PStr ''no_block_verified''),
           (''details'', PDict [(''tried_blocks'', PList [])])], s)"
  by simp


lemma loop_append:
  assumes "verify_python_loop rt timeout idx xs tried s = (Inr r1, s1)"
    and "dict_get r1 ''verified'' PNone \<noteq> PBool True"
  shows "verify_python_loop rt timeout idx (xs @ ys) tried s =
         verify_python_loop rt timeout (idx + length xs) ys (tried_blocks r1) s1"
  using assms
proof (induction xs arbitrary: idx tried s)
  case Nil
  then show ?case
    by (auto simp: tried_blocks_def field_def dict_get_def)
next
  case (Cons blk rest)
  show ?case
  proof (cases "too_short blk")
    case True
    with Cons.prems Cons.IH [of "Suc idx" "tried @ [skip_entry idx]" s] show ?thesis
      by (simp add: loop_skip)
  next
    case False
    obtain x s2 where vs: "verify_single rt blk timeout s = (x, s2)"
      by (cases "verify_single rt blk timeout s") auto
    show ?thesis
    proof (cases x)
      case (Inl e)
      note step = loop_fault [OF False vs [unfolded Inl]]
      from Cons.prems Cons.IH [of "Suc idx" "tried @ [fault_entry idx e]" s2] show ?thesis
        by (simp add: step)
    next
      case (Inr res)
      note vs' = vs [unfolded Inr]
      show ?thesis
      proof (cases "truthy (dict_get res ''verified'' PNone)")
        case no: False
        note step = loop_fail [OF False vs' no]
        from Cons.prems Cons.IH [of "Suc idx" "tried @ [result_entry idx res]" s2] show ?thesis
          by (simp add: step)
      next
        case yes: True
        from loop_pass [OF False vs' yes, of idx tried] Cons.prems show ?thesis
          by (auto simp: dict_get_def)
      qed
    qed
  qed
qed

text \<open>
  C7. The batch form never raises: for every list of candidates \<^verbatim>\<open>verify_python\<close> returns a
  result. And where the pipeline of a candidate raises (the candidates before it have been
  tried without a verified one, it is not too short, and \<^verbatim>\<open>_verify_single\<close> raises \<open>e\<close> in
  the state reached), the loop appends the record with \<^verbatim>\<open>verified = False\<close>, the reason
  \<^verbatim>\<open>exception_in_verifier\<close> and the error text in its details, and goes on with the
  candidates after it: the call returns what the loop returns on the remaining candidates,
  and the record stands in the history at the position of the candidate.
\<close>

theorem pipeline_fault_is_recorded:
  "(\<exists>r s'. verify_python rt (Blocks blocks) timeout s = (Inr r, s')) \<and>
   (blocks = before @ blk # after \<and>
    verify_python rt (Blocks before) timeout s = (Inr rb, sb) \<and>
    dict_get rb ''verified'' PNone = PBool False \<and>
    \<not> too_short blk \<and> verify_single rt blk timeout sb = (Inl e, sf) \<longrightarrow>
    (\<exists>r s'. verify_python rt (Blocks blocks) timeout s = (Inr r, s') \<and>
       verify_python_loop rt timeout (Suc (length before)) after
         (tried_blocks rb @
          [PDict [(''index'', PInt (int (length before))), (''skipped'', PBool False),
                  (''verified'', PBool False), (''reason'', PStr ''exception_in_verifier''),
                  (''details'', PDict [(''error'', PStr e)])]]) sf = (Inr r, s') \<and>
       length before < length (tried_blocks r) \<and>
       tried_blocks r ! length before =
         PDict [(''index'', PInt (int (length before))), (''skipped'', PBool False),
                (''verified'', PBool False), (''reason'', PStr ''exception_in_verifier''),
                (''details'', PDict [(''error'', PStr e)])]))"
proof (intro conjI impI)
  from loop_post_ex [of rt timeout 0 blocks "[]" s]
  show "\<exists>r s'. verify_python rt (Blocks blocks) timeout s = (Inr r, s')"
    by (auto simp: loop_post_def)
next
  let ?n = "length before"
  let ?fault = "fault_entry ?n e"
  assume "blocks = before @ blk # after \<and>
    verify_python rt (Blocks before) timeout s = (Inr rb, sb) \<and>
    dict_get rb ''verified'' PNone = PBool False \<and>
    \<not> too_short blk \<and> verify_single rt blk timeout sb = (Inl e, sf)"
  then have blocks: "blocks = before @ blk # after"
    and pre: "verify_python_loop rt timeout 0 before [] s = (Inr rb, sb)"
    and unverified: "dict_get rb ''verified'' PNone = PBool False"
    and long: "\<not> too_short blk" and raised: "verify_single rt blk timeout sb = (Inl e, sf)"
    by simp_all
  from loop_post_ex [of rt timeout 0 before "[]" s] pre unverified
  have len1: "length (tried_blocks rb) = ?n"
    by (auto simp: loop_post_def split: if_splits)
  from unverified have "dict_get rb ''verified'' PNone \<noteq> PBool True" by simp
  from loop_append [OF pre this, of "blk # after"]
  have "verify_python_loop rt timeout 0 blocks [] s =
        verify_python_loop rt timeout ?n (blk # after) (tried_blocks rb) sb"
    by (simp add: blocks)
  also have "\<dots> = verify_python_loop rt timeout (Suc ?n) after (tried_blocks rb @ [?fault]) sf"
    by (rule loop_fault [OF long raised])
  finally have cont: "verify_python rt (Blocks blocks) timeout s =
      verify_python_loop rt timeout (Suc ?n) after (tried_blocks rb @ [?fault]) sf"
    by simp
  from loop_post_ex [of rt timeout "Suc ?n" after "tried_blocks rb @ [?fault]" sf]
  obtain r s' new where run: "verify_python_loop rt timeout (Suc ?n) after (tried_blocks rb @ [?fault]) sf = (Inr r, s')"
    and tried: "tried_blocks r = (tried_blocks rb @ [?fault]) @ new"
    by (auto simp: loop_post_def)
  from tried len1 have "?n < length (tried_blocks r)" and "tried_blocks r ! ?n = ?fault"
    by (simp_all add: nth_append)
  with cont run show "\<exists>r s'. verify_python rt (Blocks blocks) timeout s = (Inr r, s') \<and>
       verify_python_loop rt timeout (Suc ?n) after
         (tried_blocks rb @
          [PDict [(''index'', PInt (int ?n)), (''skipped'', PBool False),
                  (''verified'', PBool False), (''reason'', PStr ''exception_in_verifier''),
                  (''details'', PDict [(''error'', PStr e)])]]) sf = (Inr r, s') \<and>
       ?n < length (tried_blocks r) \<and>
       tried_blocks r ! ?n =
         PDict [(''index'', PInt (int ?n)), (''skipped'', PBool False),
                (''verified'', PBool False), (''reason'', PStr ''exception_in_verifier''),
                (''details'', PDict [(''error'', PStr e)])]"
    unfolding fault_entry_def by (simp del: verify_python.simps)
qed

text \<open>
  The example host: after a skipped and a failing candidate, the temporary file of the third
  cannot be written; its record holds the error, and the fourth candidate is still tried.
\<close>

theorem pipeline_fault_is_recorded_witness:
  "dict_get (projr (fst (verify_python example_runtime (Blocks [''x'', ''undefined_name'']) 5 example_state)))
     ''verified'' PNone = PBool False \<and>
   \<not> too_short ''boom()'' \<and>
   fst (verify_single example_runtime ''boom()'' 5
     (snd (verify_python example_runtime (Blocks [''x'', ''undefined_name'']) 5 example_state))) =
     Inl ''disk full'' \<and>
   2 < length (tried_blocks (projr (fst (verify_python example_runtime
         (Blocks [''x'', ''undefined_name'', ''boom()'', ''1 + 1 + 1'']) 5 example_state)))) \<and>
   tried_blocks (projr (fst (verify_python example_runtime
         (Blocks [''x'', ''undefined_name'', ''boom()'', ''1 + 1 + 1'']) 5 example_state))) ! 2 =
     PDict [(''index'', PInt 2), (''skipped'', PBool False), (''verified'', PBool False),
            (''reason'', PStr ''exception_in_verifier''),
            (''details'', PDict [(''error'', PStr ''disk full'')])]"
proof -
  let ?before = "[''x'', ''undefined_name'']"
  let ?blocks = "[''x'', ''undefined_name'', ''boom()'', ''1 + 1 + 1'']"
  let ?run1 = "verify_python example_runtime (Blocks ?before) 5 example_state"
  let ?r1 = "projr (fst ?run1)"
  let ?s1 = "snd ?run1"
  let ?step = "verify_single example_runtime ''boom()'' 5 ?s1"
  let ?run = "verify_python example_runtime (Blocks ?blocks) 5 example_state"
  note inst = pipeline_fault_is_recorded [where rt = example_runtime and timeout = 5
      and s = example_state and blocks = "?blocks" and before = "?before" and blk = "''boom()''"
      and after = "[''1 + 1 + 1'']" and rb = "?r1" and sb = "?s1" and e = "''disk full''"
      and sf = "snd ?step"]
  from pipeline_fault_is_recorded [where rt = example_runtime and timeout = 5
      and s = example_state and blocks = "?before"]
  obtain r0 s0 where "?run1 = (Inr r0, s0)" by blast
  then have h1: "?run1 = (Inr ?r1, ?s1)"
    by (simp only: fst_conv snd_conv sum.sel)
  have h2: "dict_get ?r1 ''verified'' PNone = PBool False"
    by code_simp
  have h3: "\<not> too_short ''boom()''"
    by code_simp
  have h4: "fst ?step = Inl ''disk full''"
    by code_simp
  then have h4': "?step = (Inl ''disk full'', snd ?step)"
    by (metis prod.collapse)
  from inst h1 h2 h3 h4' obtain r s' where run: "?run = (Inr r, s')"
    and rec: "length ?before < length (tried_blocks r)"
      "tried_blocks r ! length ?before =
         PDict [(''index'', PInt (int (length ?before))), (''skipped'', PBool False),
                (''verified'', PBool False), (''reason'', PStr ''exception_in_verifier''),
                (''details'', PDict [(''error'', PStr ''disk full'')])]"
    by auto
  have r: "projr (fst ?run) = r"
    by (simp only: run fst_conv sum.sel)
  from rec have "2 < length (tried_blocks r)" and "tried_blocks r ! 2 =
      PDict [(''index'', PInt 2), (''skipped'', PBool False), (''verified'', PBool False),
            (''reason'', PStr ''exception_in_verifier''),
            (''details'', PDict [(''error'', PStr ''disk full'')])]"
    by (simp_all add: numeral_2_eq_2)
  with h2 h3 h4 show ?thesis
    unfolding r by blast
qed

section \<open>The single form\<close>

lemma verify_single_rejected:
  assumes "snd (looks_safe_python code) \<noteq> []"
  shows "verify_single rt code timeout s =
     (Inr [(''verified'', PBool False), (''reason'', PStr ''static_blacklist_match''),
           (''matches'', PList (map PStr (snd (looks_safe_python code))))],
      s\<lparr>trace := trace s @ [Screened code]\<rparr>)"
proof -
  obtain safe ms where l: "looks_safe_python code = (safe, ms)"
    by (cases "looks_safe_python code") auto
  then have "safe = (length ms = 0)"
    by (auto simp: looks_safe_python_def Let_def)
  with assms l have "\<not> safe" by simp
  with l show ?thesis
    by (simp add: verify_single_def record_event_def)
qed

lemma verify_single_safe_trace:
  assumes "snd (looks_safe_python code) = []"
  shows "trace (snd (verify_single rt code timeout s)) =
     trace s @ [Screened code, Normalized code, Executed (make_executable_snippet code) timeout]"
proof -
  obtain safe ms where l: "looks_safe_python code = (safe, ms)"
    by (cases "looks_safe_python code") auto
  then have "safe = (length ms = 0)"
    by (auto simp: looks_safe_python_def Let_def)
  with assms l have safe: "safe" by simp
  let ?s2 = "record_event (Normalized code) (record_event (Screened code) s)"
  have run: "trace (snd (run_in_docker rt c timeout s0)) = trace s0 @ [Executed c timeout]" for c s0
    by (simp add: run_in_docker_def record_event_def Let_def split: prod.splits proc.splits)
  have "snd (verify_single rt code timeout s) =
        snd (run_in_docker rt (make_executable_snippet code) timeout ?s2)"
    using l safe by (simp add: verify_single_def Let_def split: prod.splits sum.splits)
  then show ?thesis
    by (simp add: run record_event_def)
qed

lemma rm_rf_matches: "looks_safe_python rm_rf = (False, [BLACKLIST ! 0])"
  by code_simp

text \<open>
  C4. For every source that matches at least one pattern of the blacklist, the single form
  returns \<^verbatim>\<open>verified = False\<close> with the reason \<^verbatim>\<open>static_blacklist_match\<close> and the matched
  patterns; the host is left as it was and the trace gains the call of the screener only, so
  the executor is not invoked. This holds for \<^verbatim>\<open>import os; os.system('rm -rf /')\<close>, which
  matches the first pattern of the blacklist.
\<close>

theorem static_rejection_never_executes:
  "(snd (looks_safe_python code) \<noteq> [] \<longrightarrow>
      verify_python rt (Str code) timeout s =
        (Inr [(''verified'', PBool False), (''reason'', PStr ''static_blacklist_match''),
              (''matches'', PList (map PStr (snd (looks_safe_python code))))],
         s\<lparr>trace := trace s @ [Screened code]\<rparr>)) \<and>
   verify_python rt (Str rm_rf) timeout s =
     (Inr [(''verified'', PBool False), (''reason'', PStr ''static_blacklist_match''),
           (''matches'', PList [PStr (BLACKLIST ! 0)])],
      s\<lparr>trace := trace s @ [Screened rm_rf]\<rparr>)"
proof (intro conjI impI)
  assume "snd (looks_safe_python code) \<noteq> []"
  then show "verify_python rt (Str code) timeout s =
        (Inr [(''verified'', PBool False), (''reason'', PStr ''static_blacklist_match''),
              (''matches'', PList (map PStr (snd (looks_safe_python code))))],
         s\<lparr>trace := trace s @ [Screened code]\<rparr>)"
    by (simp add: verify_single_rejected)
next
  have "snd (looks_safe_python rm_rf) \<noteq> []"
    by (simp add: rm_rf_matches)
  from verify_single_rejected [OF this, of rt timeout s]
  show "verify_python rt (Str rm_rf) timeout s =
     (Inr [(''verified'', PBool False), (''reason'', PStr ''static_blacklist_match''),
           (''matches'', PList [PStr (BLACKLIST ! 0)])],
      s\<lparr>trace := trace s @ [Screened rm_rf]\<rparr>)"
    by (simp add: rm_rf_matches)
qed

text \<open>The example host and a call of \<^verbatim>\<open>eval\<close>: the third pattern matches, nothing runs.\<close>

theorem static_rejection_never_executes_witness:
  "snd (looks_safe_python ''eval (x)'') \<noteq> [] \<and>
   verify_python example_runtime (Str ''eval (x)'') 5 example_state =
     (Inr [(''verified'', PBool False), (''reason'', PStr ''static_blacklist_match''),
           (''matches'', PList [PStr (BLACKLIST ! 2)])],
      \<lparr>world = 0, trace = [Screened ''eval (x)'']\<rparr>)"
proof -
  have m: "looks_safe_python ''eval (x)'' = (False, [BLACKLIST ! 2])"
    by code_simp
  then have h: "snd (looks_safe_python ''eval (x)'') \<noteq> []"
    by simp
  with static_rejection_never_executes [of "''eval (x)''" example_runtime 5 example_state]
  show ?thesis
    by (simp add: m example_state_def del: verify_python.simps)
qed

text \<open>
  C3 as the specification states it (normalizer, then screener on the normalized form, then
  executor) fails: on the example host the calls for \<^verbatim>\<open>1 + 1 + 1\<close> are the screener on the
  raw source, then the normalizer, then the executor on the normalized form.
\<close>

theorem pipeline_order_counterexample:
  "trace (snd (verify_single example_runtime ''1 + 1 + 1'' 5 example_state)) =
     [Screened ''1 + 1 + 1'', Normalized ''1 + 1 + 1'',
      Executed (''print(1 + 1 + 1)'' @ [newline]) 5] \<and>
   trace (snd (verify_single example_runtime ''1 + 1 + 1'' 5 example_state)) \<noteq>
     [Normalized ''1 + 1 + 1'', Screened (''print(1 + 1 + 1)'' @ [newline]),
      Executed (''print(1 + 1 + 1)'' @ [newline]) 5]"
  by code_simp

text \<open>
  C3, amended. The single form calls the screener first, on the raw source. A source that
  the screener rejects is neither normalized nor executed. A source that passes is then
  normalized, and the executor is called on the normalized form.
\<close>

theorem pipeline_order:
  "(snd (looks_safe_python code) \<noteq> [] \<longrightarrow>
      trace (snd (verify_single rt code timeout s)) = trace s @ [Screened code]) \<and>
   (snd (looks_safe_python code) = [] \<longrightarrow>
      trace (snd (verify_single rt code timeout s)) =
        trace s @ [Screened code, Normalized code,
                   Executed (make_executable_snippet code) timeout])"
  by (simp add: verify_single_rejected verify_single_safe_trace)

theorem pipeline_order_witness:
  "snd (looks_safe_python rm_rf) \<noteq> [] \<and>
   trace (snd (verify_single example_runtime rm_rf 5 example_state)) = [Screened rm_rf] \<and>
   snd (looks_safe_python ''1 + 1 + 1'') = [] \<and>
   trace (snd (verify_single example_runtime ''1 + 1 + 1'' 5 example_state)) =
     [Screened ''1 + 1 + 1'', Normalized ''1 + 1 + 1'',
      Executed (''print(1 + 1 + 1)'' @ [newline]) 5]"
proof -
  have u: "snd (looks_safe_python rm_rf) \<noteq> []"
    by (simp add: rm_rf_matches)
  have p: "snd (looks_safe_python ''1 + 1 + 1'') = []"
    by code_simp
  have n: "make_executable_snippet ''1 + 1 + 1'' = ''print(1 + 1 + 1)'' @ [newline]"
    by code_simp
  from u pipeline_order [of rm_rf example_runtime 5 example_state]
  have "trace (snd (verify_single example_runtime rm_rf 5 example_state)) = [Screened rm_rf]"
    by (simp add: example_state_def)
  moreover from p pipeline_order [of "''1 + 1 + 1''" example_runtime 5 example_state]
  have "trace (snd (verify_single example_runtime ''1 + 1 + 1'' 5 example_state)) =
     [Screened ''1 + 1 + 1'', Normalized ''1 + 1 + 1'',
      Executed (''print(1 + 1 + 1)'' @ [newline]) 5]"
    by (simp add: example_state_def n)
  ultimately show ?thesis
    using u p by simp
qed

section \<open>The normalizer\<close>

lemma is_space_newline: "is_space newline"
  by (simp add: is_space_def newline_def)

lemma rstrip_Nil: "rstrip [] = []"
  by (simp add: rstrip_def)

lemma rstrip_Cons:
  "rstrip (x # xs) =
     (if \<forall>y\<in>set xs. is_space y then (if is_space x then [] else [x]) else x # rstrip xs)"
  by (simp add: rstrip_def dropWhile_append)

lemma dropWhile_all_space: "\<forall>y\<in>set xs. is_space y \<Longrightarrow> dropWhile is_space xs = []"
  by simp

lemma rstrip_all_space: "\<forall>y\<in>set xs. is_space y \<Longrightarrow> rstrip xs = []"
  by (simp add: rstrip_def)

lemma lstrip_all_space: "\<forall>y\<in>set xs. is_space y \<Longrightarrow> lstrip xs = []"
  by (simp add: lstrip_def)

lemma lstrip_Cons: "lstrip (x # xs) = (if is_space x then lstrip xs else x # xs)"
  by (simp add: lstrip_def)

lemma lstrip_Nil: "lstrip [] = []"
  by (simp add: lstrip_def)

lemma lstrip_rstrip: "lstrip (rstrip xs) = rstrip (lstrip xs)"
proof (induction xs)
  case Nil
  show ?case by (simp add: lstrip_Nil rstrip_Nil)
next
  case (Cons x xs)
  show ?case
  proof (cases "\<forall>y\<in>set xs. is_space y")
    case True
    then have rx: "rstrip (x # xs) = (if is_space x then [] else [x])"
      unfolding rstrip_Cons by (rule if_P)
    from True have lxs: "lstrip xs = []"
      by (rule lstrip_all_space)
    show ?thesis
    proof (cases "is_space x")
      case sp: True
      then show ?thesis
        by (simp add: rx lstrip_Cons lxs lstrip_Nil rstrip_Nil)
    next
      case nsp: False
      then show ?thesis
        by (simp add: rx lstrip_Cons lstrip_Nil)
    qed
  next
    case False
    then have rx: "rstrip (x # xs) = x # rstrip xs"
      unfolding rstrip_Cons by (rule if_not_P)
    show ?thesis
    proof (cases "is_space x")
      case sp: True
      then show ?thesis
        by (simp add: rx lstrip_Cons Cons.IH)
    next
      case nsp: False
      then show ?thesis
        by (simp add: rx lstrip_Cons)
    qed
  qed
qed

lemma rstrip_idem: "rstrip (rstrip xs) = rstrip xs"
  by (simp add: rstrip_def)

lemma rstrip_snoc_newline: "rstrip (xs @ [newline]) = rstrip xs"
  by (simp add: rstrip_def is_space_newline)

lemma rstrip_has_char:
  assumes "\<not> (\<forall>y\<in>set xs. is_space y)"
  shows "\<not> (\<forall>y\<in>set (rstrip xs). is_space y)"
proof -
  from assms have "dropWhile is_space (rev xs) \<noteq> []" by simp
  then have "\<not> is_space (hd (dropWhile is_space (rev xs)))"
    by (rule hd_dropWhile)
  moreover from \<open>dropWhile is_space (rev xs) \<noteq> []\<close>
  have "hd (dropWhile is_space (rev xs)) \<in> set (rstrip xs)"
    by (simp add: rstrip_def)
  ultimately show ?thesis by blast
qed

lemma strip_normalized: "strip (rstrip code @ [newline]) = strip code"
proof (cases "\<forall>y\<in>set code. is_space y")
  case True
  then have "rstrip code = []" and "lstrip code = []"
    by (simp_all add: rstrip_all_space lstrip_all_space)
  moreover have "lstrip [newline] = []"
    by (simp add: lstrip_Cons lstrip_Nil is_space_newline)
  ultimately have "strip (rstrip code @ [newline]) = []" and "strip code = []"
    by (simp_all add: strip_def rstrip_Nil)
  then show ?thesis by simp
next
  case False
  from rstrip_has_char [OF False]
  have "lstrip (rstrip code @ [newline]) = lstrip (rstrip code) @ [newline]"
    by (auto simp: lstrip_def dropWhile_append)
  then have "strip (rstrip code @ [newline]) = rstrip (lstrip (rstrip code))"
    by (simp add: strip_def rstrip_snoc_newline)
  also have "\<dots> = rstrip (rstrip (lstrip code))"
    by (simp add: lstrip_rstrip)
  finally show ?thesis
    by (simp add: rstrip_idem strip_def)
qed

text \<open>
  C2 as the specification states it fails: \<^verbatim>\<open>print('hi')\<close> is a statement, and the normalizer
  does not return it unchanged up to the trailing newline but wraps it in another \<^verbatim>\<open>print\<close>.
\<close>

theorem normalizer_counterexample:
  "make_executable_snippet ''print('hi')'' = ''print(print('hi'))'' @ [newline] \<and>
   make_executable_snippet ''print('hi')'' \<noteq> ''print('hi')'' @ [newline]"
  by code_simp

text \<open>
  C2, amended. The normalizer wraps the source in \<^verbatim>\<open>print(...)\<close> exactly when the trimmed
  source contains no line feed, be it an expression or a statement: the result is then
  \<^verbatim>\<open>print(\<close>, the trimmed source, \<^verbatim>\<open>)\<close> and a line feed. A source whose trimmed form
  contains a line feed is returned with its trailing whitespace replaced by one line feed,
  and otherwise unchanged.
\<close>

theorem normalizer_wraps_single_lines:
  "(newline \<notin> set (strip code) \<longrightarrow>
      make_executable_snippet code = ''print('' @ strip code @ '')'' @ [newline]) \<and>
   (newline \<in> set (strip code) \<longrightarrow>
      make_executable_snippet code = rstrip code @ [newline])"
  by (simp add: make_executable_snippet_def Let_def strip_normalized)

theorem normalizer_wraps_single_lines_witness:
  "newline \<notin> set (strip ''  x = 1 '') \<and>
   make_executable_snippet ''  x = 1 '' = ''print(x = 1)'' @ [newline] \<and>
   newline \<in> set (strip two_lines) \<and>
   make_executable_snippet two_lines = ''a = 1'' @ [newline] @ ''print(a)'' @ [newline]"
proof -
  have s1: "strip ''  x = 1 '' = ''x = 1''"
    by code_simp
  have s2: "strip two_lines = ''a = 1'' @ [newline] @ ''print(a)''"
    by code_simp
  have r2: "rstrip two_lines = ''a = 1'' @ [newline] @ ''print(a)''"
    by code_simp
  have h1: "newline \<notin> set (strip ''  x = 1 '')"
    unfolding s1 by (simp add: newline_def)
  have h2: "newline \<in> set (strip two_lines)"
    unfolding s2 by simp
  from h1 normalizer_wraps_single_lines [of "''  x = 1 ''"]
  have "make_executable_snippet ''  x = 1 '' = ''print(x = 1)'' @ [newline]"
    by (simp add: s1)
  moreover from h2 normalizer_wraps_single_lines [of two_lines]
  have "make_executable_snippet two_lines = ''a = 1'' @ [newline] @ ''print(a)'' @ [newline]"
    by (simp add: r2)
  ultimately show ?thesis
    using h1 h2 by simp
qed

section \<open>The sandbox executor\<close>

text \<open>
  C5 as the specification states it fails: the result of \<^verbatim>\<open>run_in_docker\<close> has no key for a
  kind of failure. After an exit with code 1 it holds \<^verbatim>\<open>ok\<close>, \<^verbatim>\<open>stdout\<close>, \<^verbatim>\<open>stderr\<close> and
  \<^verbatim>\<open>return_code\<close> and nothing else, so nothing in it says \<^verbatim>\<open>nonzero_exit\<close>; when the
  container cannot be started it holds \<^verbatim>\<open>ok\<close> and the error message under \<^verbatim>\<open>error\<close>, and
  nothing in it says \<^verbatim>\<open>launch_error\<close>.
\<close>

theorem execution_outcome_counterexample:
  "fst (run_in_docker example_runtime ''exit(1)'' 5 example_state) =
     Inr [(''ok'', PBool False), (''stdout'', PStr []), (''stderr'', PStr ''Traceback''),
          (''return_code'', PInt 1)] \<and>
   dict_get (projr (fst (run_in_docker example_runtime ''exit(1)'' 5 example_state)))
     ''failure_kind'' PNone \<noteq> PStr ''nonzero_exit'' \<and>
   dict_get (projr (fst (run_in_docker example_runtime ''exit(1)'' 5 example_state)))
     ''error'' PNone \<noteq> PStr ''nonzero_exit'' \<and>
   fst (run_in_docker example_runtime (''print(nodocker())'' @ [newline]) 5 example_state) =
     Inr [(''ok'', PBool False), (''error'', PStr ''docker: not found'')]"
  by code_simp

text \<open>
  C5, amended. When \<^verbatim>\<open>subprocess.run\<close> returns, the result has \<^verbatim>\<open>ok\<close> true exactly for the
  return code 0 and holds the stripped standard output, the stripped standard error and the
  return code, with no mark of a kind of failure. When it times out, the result has \<^verbatim>\<open>ok\<close>
  false, the error \<^verbatim>\<open>timeout\<close> and empty output. When it raises another exception (the
  container cannot be started), the result has \<^verbatim>\<open>ok\<close> false and the message of the exception
  as its error, and nothing else.
\<close>

theorem execution_outcome:
  "(fst (rt code timeout (world s)) = Completed rc out err \<longrightarrow>
      fst (run_in_docker rt code timeout s) =
        Inr [(''ok'', PBool (rc = 0)), (''stdout'', PStr (strip out)),
             (''stderr'', PStr (strip err)), (''return_code'', PInt rc)]) \<and>
   (fst (rt code timeout (world s)) = TimeoutExpired \<longrightarrow>
      fst (run_in_docker rt code timeout s) =
        Inr [(''ok'', PBool False), (''error'', PStr ''timeout''),
             (''stdout'', PStr []), (''stderr'', PStr [])]) \<and>
   (fst (rt code timeout (world s)) = OtherException e \<longrightarrow>
      fst (run_in_docker rt code timeout s) =
        Inr [(''ok'', PBool False), (''error'', PStr e)])"
  by (simp add: run_in_docker_def record_event_def Let_def split: prod.splits)

theorem execution_outcome_witness:
  "fst (example_runtime (''print(1 + 1 + 1)'' @ [newline]) 5 (world example_state)) =
     Completed 0 (''3'' @ [newline]) [] \<and>
   fst (run_in_docker example_runtime (''print(1 + 1 + 1)'' @ [newline]) 5 example_state) =
     Inr [(''ok'', PBool True), (''stdout'', PStr ''3''), (''stderr'', PStr []),
          (''return_code'', PInt 0)] \<and>
   fst (example_runtime (''print(spin())'' @ [newline]) 5 (world example_state)) = TimeoutExpired \<and>
   fst (run_in_docker example_runtime (''print(spin())'' @ [newline]) 5 example_state) =
     Inr [(''ok'', PBool False), (''error'', PStr ''timeout''),
          (''stdout'', PStr []), (''stderr'', PStr [])] \<and>
   fst (example_runtime (''print(nodocker())'' @ [newline]) 5 (world example_state)) =
     OtherException ''docker: not found'' \<and>
   fst (run_in_docker example_runtime (''print(nodocker())'' @ [newline]) 5 example_state) =
     Inr [(''ok'', PBool False), (''error'', PStr ''docker: not found'')]"
proof -
  have a: "fst (example_runtime (''print(1 + 1 + 1)'' @ [newline]) 5 (world example_state)) =
     Completed 0 (''3'' @ [newline]) []"
    by code_simp
  have b: "fst (example_runtime (''print(spin())'' @ [newline]) 5 (world example_state)) = TimeoutExpired"
    by code_simp
  have c: "fst (example_runtime (''print(nodocker())'' @ [newline]) 5 (world example_state)) =
     OtherException ''docker: not found''"
    by code_simp
  have s: "strip (''3'' @ [newline]) = ''3''" "strip [] = []"
    by code_simp+
  from a execution_outcome [of example_runtime "''print(1 + 1 + 1)'' @ [newline]" 5 example_state
      0 "''3'' @ [newline]" "[]"]
  have "fst (run_in_docker example_runtime (''print(1 + 1 + 1)'' @ [newline]) 5 example_state) =
     Inr [(''ok'', PBool True), (''stdout'', PStr ''3''), (''stderr'', PStr []),
          (''return_code'', PInt 0)]"
    using s by simp
  moreover from b execution_outcome [of example_runtime "''print(spin())'' @ [newline]" 5 example_state]
  have "fst (run_in_docker example_runtime (''print(spin())'' @ [newline]) 5 example_state) =
     Inr [(''ok'', PBool False), (''error'', PStr ''timeout''),
          (''stdout'', PStr []), (''stderr'', PStr [])]"
    by simp
  moreover from c execution_outcome [of example_runtime "''print(nodocker())'' @ [newline]" 5
      example_state _ _ _ "''docker: not found''"]
  have "fst (run_in_docker example_runtime (''print(nodocker())'' @ [newline]) 5 example_state) =
     Inr [(''ok'', PBool False), (''error'', PStr ''docker: not found'')]"
    by simp
  ultimately show ?thesis
    using a b c by simp
qed

section \<open>The records of rejected candidates\<close>

lemma rm_rf_long: "\<not> too_short rm_rf"
  by code_simp

text \<open>
  C8 fails on the code for a candidate that the screener rejects. The single form returns
  the matched patterns under the key \<^verbatim>\<open>matches\<close>, but the loop of the batch form copies only
  \<^verbatim>\<open>verified\<close>, \<^verbatim>\<open>reason\<close> and \<^verbatim>\<open>details\<close> into the trial record: for the list with the one
  candidate \<^verbatim>\<open>import os; os.system('rm -rf /')\<close> the record has the reason
  \<^verbatim>\<open>static_blacklist_match\<close>, \<^verbatim>\<open>details = None\<close> and no matched pattern.
\<close>

theorem rejected_record_has_no_matches:
  "verify_python rt (Blocks [rm_rf]) timeout s =
     (Inr [(''verified'', PBool False), (''reason'', PStr ''no_block_verified''),
           (''details'', PDict [(''tried_blocks'', PList
              [PDict [(''index'', PInt 0), (''skipped'', PBool False),
                      (''verified'', PBool False), (''reason'', PStr ''static_blacklist_match''),
                      (''details'', PNone)]])])],
      s\<lparr>trace := trace s @ [Screened rm_rf]\<rparr>)"
proof -
  have "snd (looks_safe_python rm_rf) \<noteq> []"
    by (simp add: rm_rf_matches)
  from verify_single_rejected [OF this, of rt timeout s] show ?thesis
    by (simp add: verify_python_loop.simps(2) rm_rf_long dict_get_def dict_update_def new_entry_def)
qed

end
